theory Spec2Isabelle
  imports Complex_Main "HOL-Library.Word"
begin

unbundle bit_operations_syntax

section \<open>Platform and data model of geodata.cc\<close>

text \<open>
  The embedding fixes the platform the addon is built for: \<^verbatim>\<open>unsigned int\<close> and
  \<^verbatim>\<open>int\<close> are 32 bits wide, \<^verbatim>\<open>size_t\<close>, \<^verbatim>\<open>long\<close> and pointers are 64 bits wide,
  \<^verbatim>\<open>double\<close> is 8 bytes and integers are stored little-endian.

  A \<^verbatim>\<open>double\<close> is modelled as a \<^typ>\<open>real\<close>: comparisons and arithmetic are exact, and
  there is no NaN, no infinity and no rounding. The reading of eight bytes as a \<^verbatim>\<open>double\<close>
  (a pointer cast in the source) is a parameter \<open>dec\<close> of every function that reads
  coordinates.

  A pointer into the buffer is a byte offset (\<^typ>\<open>nat\<close>); pointer arithmetic is done in
  64 bits and does not wrap for the magnitudes that occur. A read that leaves the
  allocated buffer, or goes through a pointer that was never assigned, is undefined
  behaviour in C and is the value \<open>Inl InvalidRead\<close> here.
\<close>

type_synonym byte = "8 word"
type_synonym u32 = "32 word"
type_synonym u64 = "64 word"

datatype fault = InvalidRead | InvalidFree | DivisionByZero

record geo_data_coordinate =
  lng :: real
  lat :: real

text \<open>
  \<^verbatim>\<open>typedef struct { unsigned int num_polygons; uint8_t *polygons; } geo_data;\<close>
  The field \<open>polygons\<close> is \<open>None\<close> while the pointer has not been assigned
  (the struct comes from \<^verbatim>\<open>malloc\<close>), and \<open>Some buffer\<close> afterwards.
\<close>

record geo_data =
  num_polygons :: u32
  polygons :: "byte list option"

subsection \<open>Reading memory\<close>

definition le_nat :: "byte list \<Rightarrow> nat" where
  "le_nat bs = foldr (\<lambda>b acc. unat b + 256 * acc) bs 0"

definition read_bytes :: "byte list option \<Rightarrow> int \<Rightarrow> nat \<Rightarrow> fault + byte list" where
  "read_bytes mem addr n =
     (case mem of
        None \<Rightarrow> Inl InvalidRead
      | Some buf \<Rightarrow>
          if 0 \<le> addr \<and> nat addr + n \<le> length buf
          then Inr (take n (drop (nat addr) buf))
          else Inl InvalidRead)"

text \<open>\<^verbatim>\<open>*(unsigned int *)ptr\<close>\<close>

definition read_u32 :: "byte list option \<Rightarrow> int \<Rightarrow> fault + u32" where
  "read_u32 mem addr =
     (case read_bytes mem addr 4 of
        Inl e \<Rightarrow> Inl e
      | Inr bs \<Rightarrow> Inr (word_of_nat (le_nat bs)))"

text \<open>A \<^verbatim>\<open>double\<close> field at an address.\<close>

definition read_double :: "(u64 \<Rightarrow> real) \<Rightarrow> byte list option \<Rightarrow> int \<Rightarrow> fault + real" where
  "read_double dec mem addr =
     (case read_bytes mem addr 8 of
        Inl e \<Rightarrow> Inl e
      | Inr bs \<Rightarrow> Inr (dec (word_of_nat (le_nat bs))))"

text \<open>
  \<^verbatim>\<open>coordinates[i].lng\<close> and \<^verbatim>\<open>coordinates[i].lat\<close>, where \<open>coordinates\<close> points at
  byte \<open>ptr\<close> of the buffer and \<^verbatim>\<open>sizeof(geo_data_coordinate)\<close> is 16.
\<close>

definition coord_lng :: "(u64 \<Rightarrow> real) \<Rightarrow> byte list option \<Rightarrow> nat \<Rightarrow> int \<Rightarrow> fault + real" where
  "coord_lng dec mem ptr i = read_double dec mem (int ptr + 16 * i)"

definition coord_lat :: "(u64 \<Rightarrow> real) \<Rightarrow> byte list option \<Rightarrow> nat \<Rightarrow> int \<Rightarrow> fault + real" where
  "coord_lat dec mem ptr i = read_double dec mem (int ptr + 16 * i + 8)"

section \<open>The hit test\<close>

text \<open>
  The condition of the \<^verbatim>\<open>if\<close> in the edge loop of \<^verbatim>\<open>geo_data_hit_test\<close>:
  \<^verbatim>\<open>
  ((coordinates[i].lng <= lng && lng < coordinates[j].lng) ||
   (coordinates[j].lng <= lng && lng < coordinates[i].lng)) &&
  (lat < (coordinates[j].lat - coordinates[i].lat) * (lng - coordinates[i].lng)
           / (coordinates[j].lng - coordinates[i].lng) + coordinates[i].lat)
  \<close>
  \<^verbatim>\<open>&&\<close> evaluates its right operand only when the left one holds, so the latitudes are
  read and the division is done only then. A division whose divisor is zero is the
  value \<open>Inl DivisionByZero\<close>.
\<close>

definition edge_condition ::
  "(u64 \<Rightarrow> real) \<Rightarrow> byte list option \<Rightarrow> nat \<Rightarrow> int \<Rightarrow> int \<Rightarrow> real \<Rightarrow> real \<Rightarrow> fault + bool" where
  "edge_condition dec mem ptr i j lng' lat' =
     (case coord_lng dec mem ptr i of
        Inl e \<Rightarrow> Inl e
      | Inr ilng \<Rightarrow>
     (case coord_lng dec mem ptr j of
        Inl e \<Rightarrow> Inl e
      | Inr jlng \<Rightarrow>
          if (ilng \<le> lng' \<and> lng' < jlng) \<or> (jlng \<le> lng' \<and> lng' < ilng) then
            (case coord_lat dec mem ptr j of
               Inl e \<Rightarrow> Inl e
             | Inr jlat \<Rightarrow>
            (case coord_lat dec mem ptr i of
               Inl e \<Rightarrow> Inl e
             | Inr ilat \<Rightarrow>
                 if jlng - ilng = 0 then Inl DivisionByZero
                 else Inr (lat' < (jlat - ilat) * (lng' - ilng) / (jlng - ilng) + ilat)))
          else Inr False))"

text \<open>
  \<^verbatim>\<open>
  int c = 0; int i = -1; int l = num_coordinates; int j = l - 1;
  while(++i < l) { if(...) { c = !c; } j = i; }
  \<close>
  \<open>edge_loop\<close> is the loop from the point where \<open>i\<close> has just been incremented; it
  returns the final \<open>i\<close> and \<open>c\<close>.
\<close>

function edge_loop ::
  "(u64 \<Rightarrow> real) \<Rightarrow> byte list option \<Rightarrow> nat \<Rightarrow> real \<Rightarrow> real \<Rightarrow> int \<Rightarrow> int \<Rightarrow> int \<Rightarrow> bool
     \<Rightarrow> fault + (int \<times> bool)" where
  "edge_loop dec mem ptr lng' lat' l i j c =
     (if i < l then
        (case edge_condition dec mem ptr i j lng' lat' of
           Inl e \<Rightarrow> Inl e
         | Inr t \<Rightarrow> edge_loop dec mem ptr lng' lat' l (i + 1) i (if t then \<not> c else c))
      else Inr (i, c))"
  by pat_completeness auto
termination
  by (relation "measure (\<lambda>(dec, mem, ptr, lng', lat', l, i, j, c). nat (l - i))") auto

declare edge_loop.simps [simp del]

text \<open>
  The body of the polygon loop up to the test of \<open>c\<close>: the conversion
  \<^verbatim>\<open>int l = num_coordinates\<close> reads the 32 bits as a signed number.
\<close>

definition polygon_edges ::
  "(u64 \<Rightarrow> real) \<Rightarrow> byte list option \<Rightarrow> nat \<Rightarrow> u32 \<Rightarrow> real \<Rightarrow> real \<Rightarrow> fault + (int \<times> bool)" where
  "polygon_edges dec mem coordinates num_coordinates lng' lat' =
     (let l = sint num_coordinates; j = l - 1
      in edge_loop dec mem coordinates lng' lat' l 0 j False)"

text \<open>
  \<^verbatim>\<open>
  for(unsigned int n = 0; n < data->num_polygons; ++n) {
      unsigned int num_coordinates = *(unsigned int *)polygon_ptr;
      polygon_ptr += sizeof(unsigned int);
      ... edge loop ...
      if(c) { return 1; }
      polygon_ptr += num_coordinates * sizeof(geo_data_coordinate);
  }
  return 0;
  \<close>
  \<open>polygon_loop\<close> returns the value of \<open>n\<close> at the \<^verbatim>\<open>return\<close> together with the result.
\<close>

function polygon_loop ::
  "(u64 \<Rightarrow> real) \<Rightarrow> byte list option \<Rightarrow> real \<Rightarrow> real \<Rightarrow> nat \<Rightarrow> nat \<Rightarrow> nat \<Rightarrow> fault + (nat \<times> bool)" where
  "polygon_loop dec mem lng' lat' N n polygon_ptr =
     (if n < N then
        (case read_u32 mem (int polygon_ptr) of
           Inl e \<Rightarrow> Inl e
         | Inr num_coordinates \<Rightarrow>
        (case polygon_edges dec mem (polygon_ptr + 4) num_coordinates lng' lat' of
           Inl e \<Rightarrow> Inl e
         | Inr (i, c) \<Rightarrow>
             if c then Inr (n, True)
             else polygon_loop dec mem lng' lat' N (n + 1)
                    (polygon_ptr + 4 + unat num_coordinates * 16)))
      else Inr (n, False))"
  by pat_completeness auto
termination
  by (relation "measure (\<lambda>(dec, mem, lng', lat', N, n, polygon_ptr). N - n)") auto

declare polygon_loop.simps [simp del]

text \<open>
  \<^verbatim>\<open>geo_data_hit_test\<close> with the value of \<open>n\<close> at its \<^verbatim>\<open>return\<close>: 0 for a null
  \<open>data\<close>, else the loop from \<open>n = 0\<close> at the start of the buffer.
\<close>

definition hit_test_scan ::
  "(u64 \<Rightarrow> real) \<Rightarrow> geo_data option \<Rightarrow> real \<Rightarrow> real \<Rightarrow> fault + (nat \<times> bool)" where
  "hit_test_scan dec data lng' lat' =
     (case data of
        None \<Rightarrow> Inr (0, False)
      | Some d \<Rightarrow> polygon_loop dec (polygons d) lng' lat' (unat (num_polygons d)) 0 0)"

text \<open>\<^verbatim>\<open>int geo_data_hit_test(geo_data *data, double lng, double lat)\<close>: 1 is \<open>True\<close>.\<close>

definition geo_data_hit_test ::
  "(u64 \<Rightarrow> real) \<Rightarrow> geo_data option \<Rightarrow> real \<Rightarrow> real \<Rightarrow> fault + bool" where
  "geo_data_hit_test dec data lng' lat' = map_sum id snd (hit_test_scan dec data lng' lat')"

section \<open>The loader\<close>

text \<open>
  What the loader sees of its environment: the contents of the file a path names
  (\<open>None\<close> when \<^verbatim>\<open>fopen\<close> fails), whether the two \<^verbatim>\<open>fseek\<close> calls fail, and for which
  sizes \<^verbatim>\<open>malloc\<close> returns \<^verbatim>\<open>NULL\<close>. The \<^verbatim>\<open>malloc\<close> of the \<open>geo_data\<close> struct
  itself is not checked by the source and is taken to succeed.
\<close>

record sys =
  fopen :: "string \<Rightarrow> byte list option"
  fseek_end_fails :: bool
  fseek_set_fails :: bool
  malloc_null :: "nat \<Rightarrow> bool"

text \<open>
  \<^verbatim>\<open>fread(dst, 1, n, handle)\<close> at file position \<open>pos\<close>: the bytes delivered; their number
  is the return value.
\<close>

definition fread :: "byte list \<Rightarrow> nat \<Rightarrow> nat \<Rightarrow> byte list" where
  "fread file pos n = take n (drop pos file)"

text \<open>
  The outcome of \<^verbatim>\<open>geo_data_create\<close>: \<open>Status s\<close> is a \<^verbatim>\<open>NULL\<close> return with
  \<^verbatim>\<open>*status = s\<close>; \<open>Loaded d\<close> is the returned struct, with \<^verbatim>\<open>*status\<close> left untouched;
  \<open>Crashed\<close> is undefined behaviour inside the loader. The calls of
  \<^verbatim>\<open>geo_data_destroy\<close> and \<^verbatim>\<open>fclose\<close> on the failure paths, and the exception thrown
  with status -1000, are not part of the outcome.
\<close>

datatype create_result = Status int | Loaded geo_data | Crashed fault

text \<open>
  The verification loop:
  \<^verbatim>\<open>
  unsigned int offset = 0;
  uint8_t *polygon_ptr = data->polygons;
  for(unsigned int i = 0; i < data->num_polygons; ++i) {
      unsigned int polygon_len = sizeof(unsigned int);
      if(offset + polygon_len > buffer_len) { ... *status = -1009; return NULL; }
      unsigned int num_coordinates = *(unsigned int *)polygon_ptr;
      polygon_len += num_coordinates * sizeof(double) * 2;
      if(offset + polygon_len > buffer_len) { ... *status = -1010; return NULL; }
      offset += polygon_len;
      polygon_ptr += polygon_len;
  }
  \<close>
  \<open>offset\<close>, \<open>polygon_len\<close> and \<open>buffer_len\<close> are \<^verbatim>\<open>unsigned int\<close>: the product is formed
  in \<^verbatim>\<open>size_t\<close> and cut to 32 bits by the assignment to \<open>polygon_len\<close>, and the sums
  wrap. \<open>polygon_ptr\<close> is a pointer and does not wrap. The result is \<open>Inr None\<close> when the
  loop runs to its end and \<open>Inr (Some s)\<close> when it returns with status \<open>s\<close>.
\<close>

function verify_data ::
  "byte list \<Rightarrow> u32 \<Rightarrow> nat \<Rightarrow> nat \<Rightarrow> u32 \<Rightarrow> nat \<Rightarrow> fault + int option" where
  "verify_data buffer buffer_len N i offset polygon_ptr =
     (if i < N then
        (let polygon_len = (4 :: u32) in
         if offset + polygon_len > buffer_len then Inr (Some (- 1009))
         else
           (case read_u32 (Some buffer) (int polygon_ptr) of
              Inl e \<Rightarrow> Inl e
            | Inr num_coordinates \<Rightarrow>
                (let polygon_len = polygon_len + num_coordinates * 8 * 2 in
                 if offset + polygon_len > buffer_len then Inr (Some (- 1010))
                 else verify_data buffer buffer_len N (i + 1) (offset + polygon_len)
                        (polygon_ptr + unat polygon_len))))
      else Inr None)"
  by pat_completeness auto
termination
  by (relation "measure (\<lambda>(buffer, buffer_len, N, i, offset, polygon_ptr). N - i)") auto

declare verify_data.simps [simp del]

text \<open>
  \<^verbatim>\<open>geo_data* geo_data_create(const char *filepath, int *status)\<close>.
  \<^verbatim>\<open>(unsigned int)ftell(handle)\<close> keeps the low 32 bits of the file length. The header
  is compared byte by byte with \<^verbatim>\<open>'G'\<close>, \<^verbatim>\<open>'E'\<close>, \<^verbatim>\<open>'O'\<close>, \<^verbatim>\<open>'!'\<close> (0x47, 0x45, 0x4F, 0x21);
  past the length check the file holds at least 8 bytes, so the four header bytes and
  the four bytes of the count are all read.
\<close>

definition geo_data_create :: "sys \<Rightarrow> string \<Rightarrow> create_result" where
  "geo_data_create s filepath =
     (case fopen s filepath of
        None \<Rightarrow> Status (- 1000)
      | Some file \<Rightarrow>
          if fseek_end_fails s then Status (- 1001)
          else
            (let len = (word_of_nat (length file) :: u32) in
             if fseek_set_fails s then Status (- 1002)
             else if len < 4 + 4 then Status (- 1003)
             else
               (let header = fread file 0 4 in
                if length header = 0 then Status (- 1004)
                else if header ! 0 \<noteq> 0x47 \<or> header ! 1 \<noteq> 0x45 \<or>
                        header ! 2 \<noteq> 0x4F \<or> header ! 3 \<noteq> 0x21
                then Status (- 1005)
                else
                  (let count_bytes = fread file 4 4 in
                   if length count_bytes = 0 then Status (- 1006)
                   else
                     (let data = \<lparr>num_polygons = word_of_nat (le_nat count_bytes),
                                  polygons = None\<rparr> in
                      if num_polygons data = 0 then Loaded data
                      else
                        (let buffer_len = len - (4 + 4) in
                         if malloc_null s (unat buffer_len) then Status (- 1007)
                         else
                           (let buffer = fread file 8 (unat buffer_len);
                                data = data\<lparr>polygons := Some buffer\<rparr> in
                            if length buffer = 0 then Status (- 1008)
                            else
                              (case verify_data buffer buffer_len
                                      (unat (num_polygons data)) 0 0 0 of
                                 Inl e \<Rightarrow> Crashed e
                               | Inr (Some st) \<Rightarrow> Status st
                               | Inr None \<Rightarrow> Loaded data))))))))"

text \<open>
  \<^verbatim>\<open>void geo_data_destroy(geo_data *data)\<close>: the list of blocks handed to \<^verbatim>\<open>free\<close>.
  Freeing through a pointer that was never assigned is undefined behaviour
  (\<open>Inl InvalidFree\<close>).
\<close>

datatype block = Buffer "byte list" | Struct

definition geo_data_destroy :: "geo_data option \<Rightarrow> fault + block list" where
  "geo_data_destroy data =
     (case data of
        None \<Rightarrow> Inr []
      | Some d \<Rightarrow>
          (case polygons d of
             None \<Rightarrow> Inl InvalidFree
           | Some buffer \<Rightarrow> Inr [Buffer buffer, Struct]))"

section \<open>The wrapper class\<close>

text \<open>
  \<^verbatim>\<open>GeoData::GeoData(const char *filepath)\<close>: the field \<^verbatim>\<open>geo_data_\<close> (here \<open>geo_data_p\<close>) and the message of
  the exception the constructor throws, if any. \<open>status\<close> starts at 0 and the test is
  \<^verbatim>\<open>status <= 0\<close>; \<^verbatim>\<open>strerror(errno)\<close> is the message \<open>''strerror''\<close>. A crash of the
  loader is a crash of the constructor.
\<close>

record GeoData =
  geo_data_p :: "geo_data option"

definition status_msg :: "int \<Rightarrow> string" where
  "status_msg status =
     (if status = - 1000 then ''strerror''
      else if status = - 1001 then ''-1001''
      else if status = - 1002 then ''-1002''
      else if status = - 1003 then ''-1003''
      else if status = - 1004 then ''-1004''
      else if status = - 1005 then ''-1005''
      else if status = - 1006 then ''-1006''
      else if status = - 1007 then ''-1007''
      else if status = - 1008 then ''-1008''
      else if status = - 1009 then ''-1009''
      else if status = - 1010 then ''-1010''
      else ''Unknown'')"

definition GeoData_new :: "sys \<Rightarrow> string option \<Rightarrow> fault + (GeoData \<times> string option)" where
  "GeoData_new s filepath =
     (case filepath of
        Some path \<Rightarrow>
          (case geo_data_create s path of
             Crashed e \<Rightarrow> Inl e
           | Status st \<Rightarrow>
               Inr (\<lparr>geo_data_p = None\<rparr>, if st \<le> 0 then Some (status_msg st) else None)
           | Loaded d \<Rightarrow>
               Inr (\<lparr>geo_data_p = Some d\<rparr>,
                    if (0 :: int) \<le> 0 then Some (status_msg 0) else None))
      | None \<Rightarrow> Inr (\<lparr>geo_data_p = None\<rparr>, None))"

text \<open>\<^verbatim>\<open>GeoData::~GeoData()\<close>\<close>

definition GeoData_delete :: "GeoData \<Rightarrow> fault + block list" where
  "GeoData_delete obj =
     (if geo_data_p obj \<noteq> None then geo_data_destroy (geo_data_p obj) else Inr [])"


section \<open>The file format and the even-odd rule, as the specification words them\<close>

text \<open>The magic \<^verbatim>\<open>"GEO!"\<close>.\<close>

definition magic :: "byte list" where
  "magic = [0x47, 0x45, 0x4F, 0x21]"

text \<open>
  The five error kinds of the specification, and the status values of the source they
  stand for: open, seek, read and allocation failures are \<open>IOError\<close>.
\<close>

datatype load_error =
  IOError | TruncatedHeader | BadMagic | TruncatedPolygonHeader | TruncatedPolygonBody

definition error_kind :: "int \<Rightarrow> load_error option" where
  "error_kind st =
     (if st \<in> {- 1000, - 1001, - 1002, - 1004, - 1006, - 1007, - 1008} then Some IOError
      else if st = - 1003 then Some TruncatedHeader
      else if st = - 1005 then Some BadMagic
      else if st = - 1009 then Some TruncatedPolygonHeader
      else if st = - 1010 then Some TruncatedPolygonBody
      else None)"

text \<open>
  The structural validation of the specification, in exact arithmetic: for each of
  \<open>k\<close> polygons from byte \<open>off\<close> on, the 4-byte count must fit, then the \<open>V\<close>
  coordinates of 16 bytes. \<open>Fits e\<close> gives the byte after the last polygon: from
  \<open>off = 0\<close> it is the sum of the byte extents \<open>4 + V * 16\<close> of the polygons.
  A body that does not fit is \<open>Exceeds32\<close> when its exact end is not below \<open>2 ^ 32\<close>,
  and \<open>ShortBody\<close> otherwise.
\<close>

datatype layout = Fits nat | ShortHeader | ShortBody | Exceeds32

fun spec_layout :: "byte list \<Rightarrow> nat \<Rightarrow> nat \<Rightarrow> layout" where
  "spec_layout buf off 0 = Fits off"
| "spec_layout buf off (Suc k) =
     (if length buf < off + 4 then ShortHeader
      else
        (let V = le_nat (take 4 (drop off buf)) in
         if off + 4 + V * 16 \<le> length buf then spec_layout buf (off + 4 + V * 16) k
         else if off + 4 + V * 16 < 2 ^ 32 then ShortBody
         else Exceeds32))"

text \<open>
  A Polygon Set is validly structured when its declared polygons fit its buffer, the
  buffer length being a 32-bit count; a set with no buffer has no polygons.
\<close>

definition valid_structure :: "geo_data \<Rightarrow> bool" where
  "valid_structure d =
     (case polygons d of
        None \<Rightarrow> num_polygons d = 0
      | Some buf \<Rightarrow>
          length buf < 2 ^ 32 \<and>
          (case spec_layout buf 0 (unat (num_polygons d)) of Fits e \<Rightarrow> True | _ \<Rightarrow> False))"






text \<open>The latitude of the line through \<open>a\<close> and \<open>b\<close> at longitude \<open>x\<close>.\<close>

definition edge_lat_at :: "geo_data_coordinate \<Rightarrow> geo_data_coordinate \<Rightarrow> real \<Rightarrow> real" where
  "edge_lat_at a b x = (lat b - lat a) * (x - lng a) / (lng b - lng a) + lat a"

text \<open>
  An edge is crossed when one endpoint's longitude is at most the query longitude
  while the other's is greater, and the latitude of the edge at the query longitude
  exceeds the query latitude.
\<close>

definition edge_crossed :: "real \<Rightarrow> real \<Rightarrow> geo_data_coordinate \<times> geo_data_coordinate \<Rightarrow> bool" where
  "edge_crossed x y e =
     (case e of (a, b) \<Rightarrow>
        ((lng a \<le> x \<and> x < lng b) \<or> (lng b \<le> x \<and> x < lng a)) \<and> y < edge_lat_at a b x)"



section \<open>Concrete inputs\<close>

text \<open>
  The value of a finite IEEE 754 binary64 bit pattern. The patterns of the infinities
  and of NaN (exponent field 2047) have no value in the model of \<^verbatim>\<open>double\<close> as
  \<^typ>\<open>real\<close>; no input below uses them.
\<close>

definition binary64 :: "u64 \<Rightarrow> real" where
  "binary64 w =
     (let e = unat (drop_bit 52 w AND 0x7FF);
          m = unat (w AND 0xFFFFFFFFFFFFF);
          mag = (if e = 0 then real m / 2 ^ 1074
                 else if e < 1075 then real (2 ^ 52 + m) / 2 ^ (1075 - e)
                 else real (2 ^ 52 + m) * 2 ^ (e - 1075))
      in if bit w 63 then - mag else mag)"

text \<open>The doubles 0.0 and 1.0 as stored.\<close>

definition f64_0 :: "byte list" where
  "f64_0 = [0, 0, 0, 0, 0, 0, 0, 0]"

definition f64_1 :: "byte list" where
  "f64_1 = [0, 0, 0, 0, 0, 0, 0xF0, 0x3F]"

text \<open>The unit square (0,0), (0,1), (1,1), (1,0) as a polygon record.\<close>

definition unit_square :: "byte list" where
  "unit_square = [4, 0, 0, 0] @ f64_0 @ f64_0 @ f64_0 @ f64_1 @ f64_1 @ f64_1 @ f64_1 @ f64_0"





text \<open>A system in which the path \<open>''f''\<close> names a file and nothing fails.\<close>

definition sys_with :: "byte list \<Rightarrow> sys" where
  "sys_with file =
     \<lparr>fopen = (\<lambda>p. if p = ''f'' then Some file else None),
      fseek_end_fails = False, fseek_set_fails = False, malloc_null = (\<lambda>n. False)\<rparr>"

section \<open>Faults of the hit test\<close>

lemma edge_condition_fault:
  "edge_condition dec mem ptr i j x y = Inl e \<Longrightarrow> e = InvalidRead"
  by (cases e)
    (auto simp: edge_condition_def coord_lng_def coord_lat_def read_double_def read_bytes_def
      split: sum.splits if_splits option.splits)

lemma edge_loop_fault:
  "edge_loop dec mem ptr x y l i j c = Inl e \<Longrightarrow> e = InvalidRead"
proof (induction dec mem ptr x y l i j c rule: edge_loop.induct)
  case (1 dec mem ptr x y l i j c)
  show ?case
  proof (cases "edge_condition dec mem ptr i j x y")
    case (Inl e')
    with "1.prems" show ?thesis
      by (cases "i < l")
        (auto simp: edge_loop.simps [of dec mem ptr x y l i j c] dest: edge_condition_fault)
  next
    case (Inr t)
    with "1.prems" "1.IH" show ?thesis
      by (cases "i < l") (auto simp: edge_loop.simps [of dec mem ptr x y l i j c])
  qed
qed

lemma read_u32_fault: "read_u32 mem a = Inl e \<Longrightarrow> e = InvalidRead"
  by (auto simp: read_u32_def read_bytes_def split: sum.splits option.splits if_splits)

lemma polygon_loop_fault:
  "polygon_loop dec mem x y N n p = Inl e \<Longrightarrow> e = InvalidRead"
proof (induction dec mem x y N n p rule: polygon_loop.induct)
  case (1 dec mem x y N n p)
  show ?case
  proof (cases "n < N")
    case False
    with "1.prems" show ?thesis by (simp add: polygon_loop.simps [of dec mem x y N n p])
  next
    case True
    show ?thesis
    proof (cases "read_u32 mem (int p)")
      case (Inl e')
      with True "1.prems" show ?thesis
        by (auto simp: polygon_loop.simps [of dec mem x y N n p] dest: read_u32_fault)
    next
      case (Inr V)
      show ?thesis
      proof (cases "polygon_edges dec mem (p + 4) V x y")
        case (Inl e')
        with True Inr "1.prems" show ?thesis
          by (auto simp: polygon_loop.simps [of dec mem x y N n p] polygon_edges_def Let_def
              dest: edge_loop_fault)
      next
        case (Inr ic)
        obtain i c where ic: "ic = (i, c)" by (cases ic)
        from True \<open>read_u32 mem (int p) = Inr V\<close> Inr ic "1.prems" "1.IH" show ?thesis
          by (cases c) (auto simp: polygon_loop.simps [of dec mem x y N n p])
      qed
    qed
  qed
qed

text \<open>
  C10. The division of the per-edge check is evaluated only under the straddling
  condition, which makes the two endpoint longitudes differ: the divisor is never
  zero, and the hit test never divides by zero, for any memory contents, any set and
  any query coordinate.
\<close>

theorem hit_test_never_divides_by_zero:
  "edge_condition dec mem ptr i j x y \<noteq> Inl DivisionByZero \<and>
   hit_test_scan dec data x y \<noteq> Inl DivisionByZero \<and>
   geo_data_hit_test dec data x y \<noteq> Inl DivisionByZero \<and>
   (edge_crossed x y (a, b) \<longrightarrow> lng b - lng a \<noteq> 0)"
proof -
  have e: "edge_condition dec mem ptr i j x y \<noteq> Inl DivisionByZero"
    using edge_condition_fault by fastforce
  have s: "hit_test_scan dec data x y \<noteq> Inl DivisionByZero"
    by (cases data) (auto simp: hit_test_scan_def dest: polygon_loop_fault)
  have h: "geo_data_hit_test dec data x y \<noteq> Inl DivisionByZero"
    using s by (cases "hit_test_scan dec data x y") (auto simp: geo_data_hit_test_def)
  have d: "edge_crossed x y (a, b) \<longrightarrow> lng b - lng a \<noteq> 0"
    by (auto simp: edge_crossed_def)
  from e s h d show ?thesis by simp
qed

theorem hit_test_never_divides_by_zero_witness:
  "edge_condition binary64 (Some unit_square) 4 0 3 (1 / 2) (1 / 2) \<noteq> Inl DivisionByZero \<and>
   hit_test_scan binary64 (Some \<lparr>num_polygons = 1, polygons = Some unit_square\<rparr>) (1 / 2) (1 / 2)
     \<noteq> Inl DivisionByZero \<and>
   geo_data_hit_test binary64 (Some \<lparr>num_polygons = 1, polygons = Some unit_square\<rparr>) (1 / 2) (1 / 2)
     \<noteq> Inl DivisionByZero \<and>
   edge_crossed (1 / 2) (1 / 2) (\<lparr>lng = 0, lat = 1\<rparr>, \<lparr>lng = 1, lat = 1\<rparr>) \<and>
   lng \<lparr>lng = 1, lat = 1\<rparr> - lng \<lparr>lng = 0, lat = 1\<rparr> \<noteq> 0"
  using hit_test_never_divides_by_zero
    [of binary64 "Some unit_square" 4 0 3 "1 / 2" "1 / 2"
        "Some \<lparr>num_polygons = 1, polygons = Some unit_square\<rparr>"
        "\<lparr>lng = 0, lat = 1\<rparr>" "\<lparr>lng = 1, lat = 1\<rparr>"]
  by (simp add: edge_crossed_def edge_lat_at_def)

section \<open>The null set and the range check\<close>

text \<open>
  C9. Constructing with an absent path gives the set with no data (a null
  \<open>geo_data\<close> pointer) and throws nothing; on that set the hit test returns false for
  every query coordinate without scanning, and destroying it frees nothing.
\<close>

theorem null_path_set:
  "GeoData_new s None = Inr (\<lparr>geo_data_p = None\<rparr>, None) \<and>
   hit_test_scan dec None x y = Inr (0, False) \<and>
   geo_data_hit_test dec None x y = Inr False \<and>
   geo_data_destroy None = Inr [] \<and>
   GeoData_delete \<lparr>geo_data_p = None\<rparr> = Inr []"
  by (simp add: GeoData_new_def hit_test_scan_def geo_data_hit_test_def geo_data_destroy_def
      GeoData_delete_def)

theorem null_path_set_witness:
  "GeoData_new (sys_with []) None = Inr (\<lparr>geo_data_p = None\<rparr>, None) \<and>
   hit_test_scan binary64 None (1 / 2) (1 / 2) = Inr (0, False) \<and>
   geo_data_hit_test binary64 None (1 / 2) (1 / 2) = Inr False \<and>
   geo_data_destroy None = Inr [] \<and>
   GeoData_delete \<lparr>geo_data_p = None\<rparr> = Inr []"
  using null_path_set [of "sys_with []" binary64 "1 / 2" "1 / 2"] by simp



section \<open>The loader against the exact layout\<close>

lemma le_nat_bound: "le_nat bs < 256 ^ length bs"
proof (induction bs)
  case Nil
  show ?case by (simp add: le_nat_def)
next
  case (Cons b bs)
  have "unat b < 256" using unsigned_less [of b, where ?'a = nat] by simp
  moreover have "le_nat (b # bs) = unat b + 256 * le_nat bs" by (simp add: le_nat_def)
  ultimately show ?case using Cons.IH by simp
qed

lemma unat_of_nat32: "n < 2 ^ 32 \<Longrightarrow> unat (word_of_nat n :: u32) = n"
  by (simp add: unat_of_nat)

lemma le_nat_u32: "length bs = 4 \<Longrightarrow> unat (word_of_nat (le_nat bs) :: u32) = le_nat bs"
proof -
  assume "length bs = 4"
  then have "le_nat bs < 2 ^ 32" using le_nat_bound [of bs] by simp
  then show ?thesis by (simp add: unat_of_nat32)
qed

lemma create_wellformed:
  assumes f: "fopen s path = Some (magic @ cb @ payload)"
    and cb: "length cb = 4"
    and seek: "\<not> fseek_end_fails s" "\<not> fseek_set_fails s"
    and len: "length payload + 8 < 2 ^ 32"
  shows "geo_data_create s path =
     (if (word_of_nat (le_nat cb) :: u32) = 0 then Loaded \<lparr>num_polygons = 0, polygons = None\<rparr>
      else if malloc_null s (length payload) then Status (- 1007)
      else if payload = [] then Status (- 1008)
      else
        (case verify_data payload (word_of_nat (length payload)) (le_nat cb) 0 0 0 of
           Inl e \<Rightarrow> Crashed e
         | Inr (Some st) \<Rightarrow> Status st
         | Inr None \<Rightarrow> Loaded \<lparr>num_polygons = word_of_nat (le_nat cb), polygons = Some payload\<rparr>))"
proof -
  let ?file = "magic @ cb @ payload"
  let ?len = "word_of_nat (length ?file) :: u32"
  have lf: "length ?file = length payload + 8" using cb by (simp add: magic_def)
  have ulen: "unat ?len = length payload + 8"
    unfolding lf by (rule unat_of_nat32) (use len in simp)
  have nlt: "\<not> ?len < 4 + 4"
    using ulen by (simp add: word_less_nat_alt)
  have blen: "?len - (4 + 4) = (word_of_nat (length payload) :: u32)"
    by (simp only: lf) simp
  have ublen: "unat (word_of_nat (length payload) :: u32) = length payload"
    by (rule unat_of_nat32) (use len in simp)
  have h: "fread ?file 0 4 = magic" by (simp add: fread_def magic_def)
  have c: "fread ?file 4 4 = cb" using cb by (simp add: fread_def magic_def)
  have p: "fread ?file 8 (length payload) = payload" using cb by (simp add: fread_def magic_def)
  have lcb: "cb \<noteq> []" using cb by auto
  show ?thesis
    unfolding geo_data_create_def f option.case Let_def
    using seek nlt lcb
    by (simp only: blen ublen h c p if_False if_True le_nat_u32 [OF cb])
       (simp add: magic_def le_nat_u32 [OF cb] split: sum.splits option.splits)
qed

lemma read_u32_Some:
  "off + 4 \<le> length buf \<Longrightarrow>
     read_u32 (Some buf) (int off) = Inr (word_of_nat (le_nat (take 4 (drop off buf))))"
  by (simp add: read_u32_def read_bytes_def)

lemma verify_data_layout:
  assumes len: "length buf + 8 < 2 ^ 32"
  shows "k = N - i \<Longrightarrow> i \<le> N \<Longrightarrow> off \<le> length buf \<Longrightarrow>
     spec_layout buf off k \<noteq> Exceeds32 \<Longrightarrow>
     verify_data buf (word_of_nat (length buf)) N i (word_of_nat off) off =
       Inr (case spec_layout buf off k of
              Fits e \<Rightarrow> None
            | ShortHeader \<Rightarrow> Some (- 1009)
            | ShortBody \<Rightarrow> Some (- 1010)
            | Exceeds32 \<Rightarrow> None)"
proof (induction k arbitrary: i off)
  case 0
  then have "\<not> i < N" by simp
  then show ?case
    by (simp add: verify_data.simps [of buf _ N i])
next
  case (Suc k)
  let ?L = "length buf"
  let ?blen = "word_of_nat ?L :: u32"
  let ?offset = "word_of_nat off :: u32"
  let ?V = "le_nat (take 4 (drop off buf))"
  let ?Vw = "word_of_nat ?V :: u32"
  let ?end = "off + 4 + ?V * 16"
  from Suc.prems have iN: "i < N" and kN: "k = N - (i + 1)" and iN': "i + 1 \<le> N" by simp_all
  have ublen: "unat ?blen = ?L" by (rule unat_of_nat32) (use len in simp)
  have o4: "?offset + 4 = (word_of_nat (off + 4) :: u32)" by simp
  have uo4: "unat (?offset + 4) = off + 4"
    unfolding o4 by (rule unat_of_nat32) (use len Suc.prems in simp)
  have hdr: "(?offset + 4 > ?blen) = (?L < off + 4)"
    by (simp only: word_less_nat_alt ublen uo4)
  show ?case
  proof (cases "?L < off + 4")
    case True
    with iN hdr show ?thesis
      by (simp add: verify_data.simps [of buf _ N i] Let_def)
  next
    case False
    then have fits4: "off + 4 \<le> ?L" by simp
    have rd: "read_u32 (Some buf) (int off) = Inr ?Vw"
      using fits4 by (rule read_u32_Some)
    have pl: "?offset + (4 + ?Vw * 8 * 2) = (word_of_nat ?end :: u32)" by simp
    have step: "verify_data buf ?blen N i ?offset off =
        (if ?offset + (4 + ?Vw * 8 * 2) > ?blen then Inr (Some (- 1010))
         else verify_data buf ?blen N (i + 1) (?offset + (4 + ?Vw * 8 * 2))
                (off + unat (4 + ?Vw * 8 * 2 :: u32)))"
      using iN hdr False rd
      by (simp add: verify_data.simps [of buf _ N i] Let_def)
    from Suc.prems(4) False have ne: "?end \<le> ?L \<or> ?end < 2 ^ 32"
      by (auto simp: Let_def split: if_splits)
    then have end32: "?end < 2 ^ 32" using len by auto
    have uend: "unat (word_of_nat ?end :: u32) = ?end"
      using end32 by (rule unat_of_nat32)
    have body: "(?offset + (4 + ?Vw * 8 * 2) > ?blen) = (?L < ?end)"
      by (simp only: pl word_less_nat_alt ublen uend)
    have p4: "(4 + ?Vw * 8 * 2 :: u32) = word_of_nat (4 + ?V * 16)" by simp
    have upl: "unat (4 + ?Vw * 8 * 2 :: u32) = 4 + ?V * 16"
      unfolding p4 by (rule unat_of_nat32) (use end32 in simp)
    have step2: "verify_data buf ?blen N i ?offset off =
        (if ?L < ?end then Inr (Some (- 1010))
         else verify_data buf ?blen N (i + 1) (word_of_nat ?end) (off + (4 + ?V * 16)))"
      by (simp only: step) (simp only: body, simp only: upl pl)
    show ?thesis
    proof (cases "?end \<le> ?L")
      case True
      have lay: "spec_layout buf off (Suc k) = spec_layout buf ?end k"
        using fits4 True by (simp add: Let_def)
      have ne': "spec_layout buf ?end k \<noteq> Exceeds32"
        using Suc.prems(4) unfolding lay .
      have "verify_data buf ?blen N (i + 1) (word_of_nat ?end) ?end =
          Inr (case spec_layout buf ?end k of
                 Fits e \<Rightarrow> None
               | ShortHeader \<Rightarrow> Some (- 1009)
               | ShortBody \<Rightarrow> Some (- 1010)
               | Exceeds32 \<Rightarrow> None)"
        by (rule Suc.IH [OF kN iN' True ne'])
      moreover have "verify_data buf ?blen N i ?offset off =
          verify_data buf ?blen N (i + 1) (word_of_nat ?end) ?end"
        using True by (simp only: step2) (simp add: add.assoc)
      ultimately show ?thesis by (simp only: lay)
    next
      case False
      then have lay: "spec_layout buf off (Suc k) = ShortBody"
        using fits4 end32 by (simp add: Let_def)
      from False show ?thesis by (simp only: step2 lay) simp
    qed
  qed
qed

lemma spec_layout_Fits:
  "spec_layout buf off k = Fits e \<Longrightarrow> off \<le> length buf \<Longrightarrow> off \<le> e \<and> e \<le> length buf"
proof (induction k arbitrary: off)
  case 0
  then show ?case by simp
next
  case (Suc k)
  let ?end = "off + 4 + le_nat (take 4 (drop off buf)) * 16"
  from Suc.prems(1) have a: "off + 4 \<le> length buf" and b: "?end \<le> length buf"
    and c: "spec_layout buf ?end k = Fits e"
    by (auto simp: Let_def split: if_splits)
  from Suc.IH [OF c b] show ?case by simp
qed

text \<open>
  C4, as amended. For a file with the magic, a count \<open>N > 0\<close> and a payload, read
  without I/O or allocation failure, with fewer than \<open>2 ^ 32\<close> bytes and with no
  declared polygon whose exact end \<open>offset + 4 + V * 16\<close> reaches \<open>2 ^ 32\<close>: the loader
  accepts the file exactly when the byte extents of the \<open>N\<close> declared polygons fit the
  payload, their sum being at most the payload length (a payload longer than the
  polygons consume is accepted); a payload too short for a count field is rejected
  with status -1009 (-1008 when the payload is empty), and one too short for the
  coordinates with status -1010. So every such file that is accepted has polygons
  whose byte extents sum to at most the payload length.
\<close>

theorem loader_accepts_what_fits:
  assumes f: "fopen s path = Some (magic @ cb @ payload)"
    and cb: "length cb = 4" "(word_of_nat (le_nat cb) :: u32) \<noteq> 0"
    and ok: "\<not> fseek_end_fails s" "\<not> fseek_set_fails s" "\<not> malloc_null s (length payload)"
    and len: "length payload + 8 < 2 ^ 32"
    and no32: "spec_layout payload 0 (le_nat cb) \<noteq> Exceeds32"
  shows "(\<forall>e. spec_layout payload 0 (le_nat cb) = Fits e \<longrightarrow>
            e \<le> length payload \<and>
            geo_data_create s path =
              Loaded \<lparr>num_polygons = word_of_nat (le_nat cb), polygons = Some payload\<rparr>) \<and>
         (spec_layout payload 0 (le_nat cb) = ShortHeader \<longrightarrow>
            geo_data_create s path = Status (if payload = [] then - 1008 else - 1009)) \<and>
         (spec_layout payload 0 (le_nat cb) = ShortBody \<longrightarrow>
            geo_data_create s path = Status (- 1010)) \<and>
         (\<forall>d. geo_data_create s path = Loaded d \<longrightarrow>
            (\<exists>e. spec_layout payload 0 (le_nat cb) = Fits e \<and> e \<le> length payload))"
proof -
  let ?N = "le_nat cb"
  have N0: "0 < ?N" using cb(2) by (cases "?N = 0") auto
  have v: "verify_data payload (word_of_nat (length payload)) ?N 0 0 0 =
       Inr (case spec_layout payload 0 ?N of
              Fits e \<Rightarrow> None
            | ShortHeader \<Rightarrow> Some (- 1009)
            | ShortBody \<Rightarrow> Some (- 1010)
            | Exceeds32 \<Rightarrow> None)"
    using verify_data_layout [OF len, of ?N ?N 0 0] no32 by simp
  have c: "geo_data_create s path =
      (if payload = [] then Status (- 1008)
       else
         (case verify_data payload (word_of_nat (length payload)) ?N 0 0 0 of
            Inl e \<Rightarrow> Crashed e
          | Inr (Some st) \<Rightarrow> Status st
          | Inr None \<Rightarrow> Loaded \<lparr>num_polygons = word_of_nat ?N, polygons = Some payload\<rparr>))"
    using create_wellformed [OF f cb(1) ok(1,2) len] cb(2) ok(3) by simp
  have empty: "payload = [] \<Longrightarrow> spec_layout payload 0 ?N = ShortHeader"
    using N0 by (cases ?N) simp_all
  show ?thesis
  proof (intro conjI allI impI)
    fix e assume "spec_layout payload 0 ?N = Fits e"
    then show "e \<le> length payload" using spec_layout_Fits [of payload 0 ?N e] by simp
  next
    fix e assume h: "spec_layout payload 0 ?N = Fits e"
    then have "payload \<noteq> []" using empty by auto
    then show "geo_data_create s path =
        Loaded \<lparr>num_polygons = word_of_nat ?N, polygons = Some payload\<rparr>"
      by (simp add: c v h)
  next
    assume h: "spec_layout payload 0 ?N = ShortHeader"
    show "geo_data_create s path = Status (if payload = [] then - 1008 else - 1009)"
      by (simp add: c v h)
  next
    assume h: "spec_layout payload 0 ?N = ShortBody"
    then have "payload \<noteq> []" using empty by auto
    then show "geo_data_create s path = Status (- 1010)"
      by (simp add: c v h)
  next
    fix d assume l: "geo_data_create s path = Loaded d"
    show "\<exists>e. spec_layout payload 0 ?N = Fits e \<and> e \<le> length payload"
    proof (cases "spec_layout payload 0 ?N")
      case (Fits e)
      then show ?thesis using spec_layout_Fits [of payload 0 ?N e] by simp
    next
      case ShortHeader
      with l show ?thesis by (simp add: c v split: if_splits)
    next
      case ShortBody
      with l show ?thesis by (simp add: c v split: if_splits)
    next
      case Exceeds32
      with no32 show ?thesis by simp
    qed
  qed
qed

text \<open>
  C4 as stated fails: the file with one polygon of 0 vertices followed by one more
  byte is accepted, although its polygons take 4 bytes of a 5-byte payload.
\<close>

theorem trailing_bytes_accepted:
  "geo_data_create (sys_with (magic @ [1, 0, 0, 0] @ [0, 0, 0, 0, 0xFF])) ''f'' =
     Loaded \<lparr>num_polygons = 1, polygons = Some [0, 0, 0, 0, 0xFF]\<rparr> \<and>
   spec_layout [0, 0, 0, 0, 0xFF] 0 1 = Fits 4 \<and>
   (4 :: nat) \<noteq> length [0, 0, 0, 0, 0xFF :: byte]"
  by (simp add: geo_data_create_def sys_with_def magic_def fread_def le_nat_def
      verify_data.simps read_u32_def read_bytes_def)

theorem loader_accepts_what_fits_witness:
  "spec_layout [0, 0, 0, 0, 0xFF] 0 (le_nat [1, 0, 0, 0]) = Fits 4 \<and>
   geo_data_create (sys_with (magic @ [1, 0, 0, 0] @ [0, 0, 0, 0, 0xFF])) ''f'' =
     Loaded \<lparr>num_polygons = 1, polygons = Some [0, 0, 0, 0, 0xFF]\<rparr>"
proof -
  have l: "spec_layout [0, 0, 0, 0, 0xFF] 0 (le_nat [1, 0, 0, 0]) = Fits 4"
    by (simp add: le_nat_def)
  have "\<forall>e. spec_layout [0, 0, 0, 0, 0xFF] 0 (le_nat [1, 0, 0, 0]) = Fits e \<longrightarrow>
        e \<le> length [0, 0, 0, 0, 0xFF :: byte] \<and>
        geo_data_create (sys_with (magic @ [1, 0, 0, 0] @ [0, 0, 0, 0, 0xFF])) ''f'' =
          Loaded \<lparr>num_polygons = word_of_nat (le_nat [1, 0, 0, 0]),
                  polygons = Some [0, 0, 0, 0, 0xFF]\<rparr>"
    using loader_accepts_what_fits
      [of "sys_with (magic @ [1, 0, 0, 0] @ [0, 0, 0, 0, 0xFF])" "''f''"
          "[1, 0, 0, 0]" "[0, 0, 0, 0, 0xFF]"]
    by (simp add: sys_with_def le_nat_def)
  with l show ?thesis by (simp add: le_nat_def)
qed

text \<open>
  C3, at the failing input: the 12-byte file with one polygon that declares
  \<open>2 ^ 28\<close> vertices in a 4-byte payload. In exact arithmetic
  \<open>0 + 4 + 2 ^ 28 * 16\<close> exceeds the payload length 4, but the 32-bit \<open>polygon_len\<close>
  is 4 and the loader accepts the file; the hit test on the loaded set then reads
  outside the buffer. With the count 1 in place of \<open>2 ^ 28\<close> the same file is rejected
  with status -1010.
\<close>

theorem overflowing_count_accepted:
  "geo_data_create (sys_with (magic @ [1, 0, 0, 0] @ [0, 0, 0, 0x10])) ''f'' =
     Loaded \<lparr>num_polygons = 1, polygons = Some [0, 0, 0, 0x10]\<rparr> \<and>
   le_nat [0, 0, 0, 0x10] = 2 ^ 28 \<and>
   spec_layout [0, 0, 0, 0x10] 0 1 = Exceeds32 \<and>
   geo_data_hit_test binary64 (Some \<lparr>num_polygons = 1, polygons = Some [0, 0, 0, 0x10]\<rparr>) 0 0 =
     Inl InvalidRead \<and>
   geo_data_create (sys_with (magic @ [1, 0, 0, 0] @ [1, 0, 0, 0])) ''f'' = Status (- 1010)"
  by (simp add: geo_data_create_def sys_with_def magic_def fread_def le_nat_def
      verify_data.simps read_u32_def read_bytes_def
      geo_data_hit_test_def hit_test_scan_def polygon_loop.simps polygon_edges_def
      edge_loop.simps edge_condition_def coord_lng_def read_double_def)

theorem overflowing_count_accepted_witness:
  "geo_data_create (sys_with (magic @ [1, 0, 0, 0] @ [0, 0, 0, 0x10])) ''f'' \<noteq> Status (- 1010) \<and>
   spec_layout [0, 0, 0, 0x10] 0 1 = Exceeds32"
  using overflowing_count_accepted by simp

text \<open>
  C8, at the failing input: the 8-byte file with the magic and the count 1. The count
  field of its polygon does not fit the empty payload, but \<^verbatim>\<open>fread\<close> of 0 bytes returns
  0 and the loader reports the read failure -1008 (the allocation failure -1007 where
  \<^verbatim>\<open>malloc(0)\<close> is null), an \<open>IOError\<close>, not -1009. With a payload of one byte the
  status is -1009.
\<close>

theorem empty_payload_status:
  "geo_data_create (sys_with (magic @ [1, 0, 0, 0])) ''f'' = Status (- 1008) \<and>
   geo_data_create (sys_with (magic @ [1, 0, 0, 0] @ [0])) ''f'' = Status (- 1009) \<and>
   geo_data_create ((sys_with (magic @ [1, 0, 0, 0])) \<lparr>malloc_null := (\<lambda>n. n = 0)\<rparr>) ''f'' =
     Status (- 1007) \<and>
   error_kind (- 1008) = Some IOError \<and> error_kind (- 1007) = Some IOError \<and>
   error_kind (- 1009) = Some TruncatedPolygonHeader \<and>
   spec_layout [] 0 1 = ShortHeader"
  by (simp add: geo_data_create_def sys_with_def magic_def fread_def le_nat_def error_kind_def
      verify_data.simps)

theorem empty_payload_status_witness:
  "geo_data_create (sys_with (magic @ [1, 0, 0, 0])) ''f'' \<noteq> Status (- 1009) \<and>
   spec_layout [] 0 1 = ShortHeader"
  using empty_payload_status by simp

text \<open>
  The header rules and the status values: a file shorter than 8 bytes has status
  -1003, a longer one with another magic has -1005, and statuses of different kinds
  differ.
\<close>

lemma loader_error_kinds:
  assumes f: "fopen s path = Some file" and ok: "\<not> fseek_end_fails s" "\<not> fseek_set_fails s"
    and len: "length file < 2 ^ 32"
  shows "(length file < 8 \<longrightarrow> geo_data_create s path = Status (- 1003)) \<and>
         (8 \<le> length file \<and> take 4 file \<noteq> magic \<longrightarrow> geo_data_create s path = Status (- 1005))"
proof -
  have u: "unat (word_of_nat (length file) :: u32) = length file"
    using len by (rule unat_of_nat32)
  have lt: "((word_of_nat (length file) :: u32) < 8) = (length file < 8)"
    by (simp add: word_less_nat_alt u)
  have m: "take 4 file ! 0 \<noteq> 0x47 \<or> take 4 file ! 1 \<noteq> 0x45 \<or>
           take 4 file ! 2 \<noteq> 0x4F \<or> take 4 file ! 3 \<noteq> 0x21"
    if a: "8 \<le> length file" "take 4 file \<noteq> magic"
  proof -
    from a have "length (take 4 file) = length magic" by (simp add: magic_def)
    with a(2) obtain i where i: "i < 4" "take 4 file ! i \<noteq> magic ! i"
      by (auto simp: list_eq_iff_nth_eq magic_def)
    from i(1) have "i = 0 \<or> i = 1 \<or> i = 2 \<or> i = 3" by arith
    with i(2) show ?thesis by (auto simp: magic_def)
  qed
  have short: "geo_data_create s path = Status (- 1003)" if "length file < 8"
    using that ok by (simp add: geo_data_create_def f Let_def lt)
  have bad: "geo_data_create s path = Status (- 1005)" if "8 \<le> length file" "take 4 file \<noteq> magic"
    using that ok m [OF that] by (auto simp: geo_data_create_def f Let_def lt fread_def)
  from short bad show ?thesis by blast
qed

lemma status_kinds_distinct:
  "error_kind a = Some k \<Longrightarrow> error_kind b = Some k' \<Longrightarrow> k \<noteq> k' \<Longrightarrow> a \<noteq> b"
  by auto



text \<open>
  C7. The verification loop passes a polygon whose count field fits and reads 0 and
  goes on to the next polygon 4 bytes further; in the hit test the edge loop of a
  polygon with 0 vertices makes no iteration (the final \<open>i\<close> is 0) and leaves the
  parity even, so the scan goes on to the next polygon.
\<close>

theorem zero_vertex_polygon:
  "(i < N \<and> off + 4 \<le> length buf \<and> length buf + 8 < 2 ^ 32 \<and>
      le_nat (take 4 (drop off buf)) = 0 \<longrightarrow>
      verify_data buf (word_of_nat (length buf)) N i (word_of_nat off) off =
      verify_data buf (word_of_nat (length buf)) N (i + 1) (word_of_nat (off + 4)) (off + 4)) \<and>
   polygon_edges dec mem ptr 0 x y = Inr (0, False) \<and>
   (n < N \<and> read_u32 mem (int p) = Inr 0 \<longrightarrow>
      polygon_loop dec mem x y N n p = polygon_loop dec mem x y N (n + 1) (p + 4))"
proof (intro conjI impI)
  assume a: "i < N \<and> off + 4 \<le> length buf \<and> length buf + 8 < 2 ^ 32 \<and>
      le_nat (take 4 (drop off buf)) = 0"
  let ?blen = "word_of_nat (length buf) :: u32"
  let ?offset = "word_of_nat off :: u32"
  have ublen: "unat ?blen = length buf" by (rule unat_of_nat32) (use a in simp)
  have o4: "?offset + 4 = (word_of_nat (off + 4) :: u32)" by simp
  have uo4: "unat (?offset + 4) = off + 4"
    unfolding o4 by (rule unat_of_nat32) (use a in simp)
  have hdr: "\<not> ?offset + 4 > ?blen"
    using a by (simp only: word_less_nat_alt ublen uo4) simp
  have rd: "read_u32 (Some buf) (int off) = Inr 0"
    using a by (simp add: read_u32_Some)
  show "verify_data buf ?blen N i ?offset off =
      verify_data buf ?blen N (i + 1) (word_of_nat (off + 4)) (off + 4)"
    using a hdr rd by (simp add: verify_data.simps [of buf _ N i] Let_def)
next
  show "polygon_edges dec mem ptr 0 x y = Inr (0, False)"
    by (simp add: polygon_edges_def edge_loop.simps)
next
  assume "n < N \<and> read_u32 mem (int p) = Inr 0"
  then show "polygon_loop dec mem x y N n p = polygon_loop dec mem x y N (n + 1) (p + 4)"
    by (simp add: polygon_loop.simps [of dec mem x y N n p] polygon_edges_def edge_loop.simps)
qed

theorem zero_vertex_polygon_witness:
  "geo_data_create (sys_with (magic @ [1, 0, 0, 0] @ [0, 0, 0, 0])) ''f'' =
     Loaded \<lparr>num_polygons = 1, polygons = Some [0, 0, 0, 0]\<rparr> \<and>
   polygon_edges binary64 (Some [0, 0, 0, 0]) 4 0 (1 / 2) (1 / 2) = Inr (0, False) \<and>
   hit_test_scan binary64 (Some \<lparr>num_polygons = 1, polygons = Some [0, 0, 0, 0]\<rparr>) (1 / 2) (1 / 2)
     = Inr (1, False)"
proof -
  have v: "verify_data [0, 0, 0, 0] (word_of_nat (length [0, 0, 0, 0 :: byte])) 1 0 (word_of_nat 0) 0 =
      verify_data [0, 0, 0, 0] (word_of_nat (length [0, 0, 0, 0 :: byte])) 1 (0 + 1)
        (word_of_nat (0 + 4)) (0 + 4)"
    and e: "polygon_edges binary64 (Some [0, 0, 0, 0]) 4 0 (1 / 2) (1 / 2) = Inr (0, False)"
    and p: "polygon_loop binary64 (Some [0, 0, 0, 0]) (1 / 2) (1 / 2) 1 0 0 =
      polygon_loop binary64 (Some [0, 0, 0, 0]) (1 / 2) (1 / 2) 1 (0 + 1) (0 + 4)"
    using zero_vertex_polygon [of 0 1 0 "[0, 0, 0, 0]" binary64 "Some [0, 0, 0, 0]" 4 "1 / 2" "1 / 2" 0 0]
    by (simp_all add: le_nat_def read_u32_def read_bytes_def)
  have v1: "verify_data [0, 0, 0, 0] 4 (Suc 0) (Suc 0) 4 4 = Inr None"
    by (simp add: verify_data.simps)
  have p1: "polygon_loop binary64 (Some [0, 0, 0, 0]) (1 / 2) (1 / 2) (Suc 0) (Suc 0) 4 = Inr (1, False)"
    by (simp add: polygon_loop.simps)
  from v v1 have v0: "verify_data [0, 0, 0, 0] 4 (Suc 0) 0 0 0 = Inr None" by simp
  from p p1 have p0: "polygon_loop binary64 (Some [0, 0, 0, 0]) (1 / 2) (1 / 2) (Suc 0) 0 0 = Inr (1, False)"
    by simp
  have "geo_data_create (sys_with (magic @ [1, 0, 0, 0] @ [0, 0, 0, 0])) ''f'' =
     Loaded \<lparr>num_polygons = 1, polygons = Some [0, 0, 0, 0]\<rparr>"
    by (simp add: geo_data_create_def sys_with_def magic_def fread_def le_nat_def v0)
  moreover have "hit_test_scan binary64 (Some \<lparr>num_polygons = 1, polygons = Some [0, 0, 0, 0]\<rparr>)
      (1 / 2) (1 / 2) = Inr (1, False)"
    by (simp add: hit_test_scan_def p0)
  ultimately show ?thesis using e by simp
qed

section \<open>The hit test against the even-odd rule\<close>























section \<open>Further observations\<close>

text \<open>
  A set the loader returns, for a file below \<open>2 ^ 32\<close> bytes in which no declared
  polygon's exact end reaches \<open>2 ^ 32\<close>, is validly structured.
\<close>

lemma loaded_set_valid:
  assumes f: "fopen s path = Some (magic @ cb @ payload)"
    and cb: "length cb = 4"
    and ok: "\<not> fseek_end_fails s" "\<not> fseek_set_fails s"
    and len: "length payload + 8 < 2 ^ 32"
    and no32: "spec_layout payload 0 (le_nat cb) \<noteq> Exceeds32"
    and l: "geo_data_create s path = Loaded d"
  shows "valid_structure d"
proof (cases "(word_of_nat (le_nat cb) :: u32) = 0")
  case True
  with l create_wellformed [OF f cb ok len] show ?thesis
    by (auto simp: valid_structure_def)
next
  case False
  let ?N = "le_nat cb"
  have v: "verify_data payload (word_of_nat (length payload)) ?N 0 0 0 =
       Inr (case spec_layout payload 0 ?N of
              Fits e \<Rightarrow> None
            | ShortHeader \<Rightarrow> Some (- 1009)
            | ShortBody \<Rightarrow> Some (- 1010)
            | Exceeds32 \<Rightarrow> None)"
    using verify_data_layout [OF len, of ?N ?N 0 0] no32 by simp
  from l create_wellformed [OF f cb ok len] False v
  have d: "d = \<lparr>num_polygons = word_of_nat ?N, polygons = Some payload\<rparr>"
    and fits: "\<exists>e. spec_layout payload 0 ?N = Fits e"
    using no32 by (auto split: if_splits layout.splits)
  from fits len show ?thesis
    by (auto simp: valid_structure_def d le_nat_u32 [OF cb])
qed

text \<open>
  The set loaded from a file with count 0 has no buffer: destroying it hands a pointer
  that was never assigned to \<^verbatim>\<open>free\<close>.
\<close>

lemma destroy_empty_loaded_set:
  "geo_data_destroy (Some \<lparr>num_polygons = 0, polygons = None\<rparr>) = Inl InvalidFree \<and>
   GeoData_delete \<lparr>geo_data_p = Some \<lparr>num_polygons = 0, polygons = None\<rparr>\<rparr> = Inl InvalidFree"
  by (simp add: geo_data_destroy_def GeoData_delete_def)

text \<open>
  The constructor tests \<^verbatim>\<open>status <= 0\<close> with \<open>status\<close> still 0 after a successful load,
  so it throws the message \<open>''Unknown''\<close> although the set is loaded.
\<close>

lemma constructor_throws_on_success:
  "geo_data_create s path = Loaded d \<Longrightarrow>
     GeoData_new s (Some path) = Inr (\<lparr>geo_data_p = Some d\<rparr>, Some ''Unknown'')"
  by (simp add: GeoData_new_def status_msg_def)

end
